theory Spec2Isabelle
  imports Complex_Main
begin

section \<open>JavaScript values\<close>

text \<open>
  A property of the telemetry object either is missing (reading it gives
  \<open>undefined\<close>), holds \<open>null\<close>, or holds a value of the type the controller
  sends for it. Numbers are modelled as exact rationals: every finite double is a
  rational, and products are taken exactly (the rounding of IEEE-754 multiplication
  is not modelled).
\<close>

datatype 'a js = Undefined | Null | Val 'a

text \<open>The loose comparison \<^verbatim>\<open>x == null\<close> holds for \<open>null\<close> and \<open>undefined\<close> alike.\<close>

fun nullish :: "'a js \<Rightarrow> bool" where
  "nullish Undefined = True"
| "nullish Null = True"
| "nullish (Val _) = False"

text \<open>Truthiness of a boolean and of a numeric property (\<^verbatim>\<open>!!x\<close>, \<^verbatim>\<open>x ? a : b\<close>).\<close>

fun truthy_bool :: "bool js \<Rightarrow> bool" where
  "truthy_bool (Val b) = b"
| "truthy_bool _ = False"



datatype exn = TypeError | Rejection string

subsection \<open>Number.prototype.toFixed\<close>

text \<open>
  The string \<^verbatim>\<open>x.toFixed(f)\<close> produces: for \<open>\<bar>x\<bar> < 10\<^sup>2\<^sup>1\<close> the sign and the decimal
  numeral of \<open>n / 10\<^sup>f\<close>, where \<open>n\<close> is the integer nearest to \<open>\<bar>x\<bar> \<sqdot> 10\<^sup>f\<close> (the larger
  one of two); from \<open>10\<^sup>2\<^sup>1\<close> on, the ordinary string of the number itself.
\<close>

datatype numeral_string =
    Fixed bool nat nat
  | Plain rat

definition toFixed :: "nat \<Rightarrow> rat \<Rightarrow> numeral_string" where
  "toFixed f x =
     (if \<bar>x\<bar> \<ge> 10 ^ 21 then Plain x
      else Fixed (x < 0) f (nat \<lfloor>\<bar>x\<bar> * 10 ^ f + 1 / 2\<rfloor>))"


text \<open>Calling \<^verbatim>\<open>.toFixed(f)\<close> on a property: a \<open>TypeError\<close> on \<open>null\<close> and \<open>undefined\<close>.\<close>

fun call_toFixed :: "nat \<Rightarrow> rat js \<Rightarrow> exn + numeral_string" where
  "call_toFixed f (Val x) = Inr (toFixed f x)"
| "call_toFixed f _ = Inl TypeError"

section \<open>The telemetry object\<close>

record bike_data =
  engine_temp_c :: "rat js"
  battery_voltage :: "rat js"
  tire_pressure_kpa :: "rat js"
  moving :: "bool js"
  gps_lat :: "rat js"
  gps_lon :: "rat js"
  immobilization_status :: "bool js"
  timestamp :: "int js"

text \<open>
  The mock snapshot of the demo mode; its \<open>timestamp\<close> is the time at which the module
  is loaded, in seconds, here a parameter.
\<close>

definition mockBikeData :: "int \<Rightarrow> bike_data" where
  "mockBikeData now =
     \<lparr> engine_temp_c = Val (827 / 10),
       battery_voltage = Val (1246 / 100),
       tire_pressure_kpa = Val 220,
       moving = Val False,
       gps_lat = Val (374219999 / 10000000),
       gps_lon = Val (- 1220840575 / 10000000),
       immobilization_status = Val False,
       timestamp = Val now \<rparr>"

section \<open>BikeMap\<close>

datatype map_panel =
    MapContainer "rat js \<times> rat js" "rat js \<times> rat js" "numeral_string \<times> numeral_string"
  | NoLocation string

fun marker :: "map_panel \<Rightarrow> (rat js \<times> rat js) option" where
  "marker (MapContainer center position popup) = Some position"
| "marker (NoLocation msg) = None"

definition BikeMap :: "bike_data option \<Rightarrow> exn + map_panel option" where
  "BikeMap bikeData =
     (case bikeData of
        None \<Rightarrow> Inr None
      | Some d \<Rightarrow>
          let lat = gps_lat d;
              lon = gps_lon d;
              hasLocation = (\<not> nullish lat \<and> \<not> nullish lon);
              position = (if hasLocation then (lat, lon) else (Val 0, Val 0))
          in if hasLocation then
               (case call_toFixed 5 lat of
                  Inl e \<Rightarrow> Inl e
                | Inr la \<Rightarrow>
                    (case call_toFixed 5 lon of
                       Inl e \<Rightarrow> Inl e
                     | Inr lo \<Rightarrow> Inr (Some (MapContainer position position (la, lo)))))
             else Inr (Some (NoLocation ''No GPS fix yet'')))"

section \<open>BikeStatusDisplay\<close>





section \<open>The transport client (utils/api.js)\<close>

text \<open>The data of a response body, and of the objects \<open>sendCommand\<close> returns.\<close>

datatype json =
    JNull
  | JBool bool
  | JNum rat
  | JStr string
  | JArr "json list"
  | JObj "(string \<times> json) list"








section \<open>SecurityControls\<close>

record button =
  disabled :: bool
  onClick :: string

record security_panel =
  statusClass :: string
  statusText :: string
  immobilizeButton :: button
  resumeButton :: button
  working :: bool

text \<open>
  The component's state is \<open>busy\<close>. \<open>sent\<close> records its effect on the outside: the
  actions handed to the \<open>sendCommand\<close> property, in order.
\<close>

record controls =
  busy :: bool
  sent :: "string list"

definition SecurityControls :: "controls \<Rightarrow> bike_data option \<Rightarrow> security_panel option" where
  "SecurityControls st bikeData =
     (case bikeData of
        None \<Rightarrow> None
      | Some d \<Rightarrow>
          let immobilized = truthy_bool (immobilization_status d)
          in Some
              \<lparr> statusClass = (if immobilized then ''immobilized'' else ''active''),
                statusText = (if immobilized then ''IMMOBILIZED'' else ''ACTIVE''),
                immobilizeButton = \<lparr> disabled = (busy st \<or> immobilized), onClick = ''immobilize'' \<rparr>,
                resumeButton = \<lparr> disabled = (busy st \<or> \<not> immobilized), onClick = ''resume'' \<rparr>,
                working = busy st \<rparr>)"

text \<open>
  \<open>handleClick\<close> runs in two parts. Up to the \<open>await\<close> it sets \<open>busy\<close> and calls
  \<open>sendCommand(action)\<close>; when that call settles (\<open>Inr\<close> its value, \<open>Inl\<close> what it
  threw) the \<open>finally\<close> clause clears \<open>busy\<close>, the value is dropped and an exception
  goes on to the caller.
\<close>

definition handleClick_dispatch :: "string \<Rightarrow> controls \<Rightarrow> controls" where
  "handleClick_dispatch action st = st\<lparr>busy := True, sent := sent st @ [action]\<rparr>"

definition handleClick_settle :: "exn + json \<Rightarrow> controls \<Rightarrow> controls \<times> (exn + unit)" where
  "handleClick_settle outcome st =
     (st\<lparr>busy := False\<rparr>, (case outcome of Inl e \<Rightarrow> Inl e | Inr v \<Rightarrow> Inr ()))"

text \<open>A disabled button does not run its click handler.\<close>

definition click :: "button \<Rightarrow> controls \<Rightarrow> controls" where
  "click b st = (if disabled b then st else handleClick_dispatch (onClick b) st)"

text \<open>
  Requesting an action is pressing its button in the rendered panel; with no telemetry
  object the component renders nothing and there is no button to press.
\<close>

definition requestImmobilize :: "controls \<Rightarrow> bike_data option \<Rightarrow> controls" where
  "requestImmobilize st bikeData =
     (case SecurityControls st bikeData of
        None \<Rightarrow> st
      | Some panel \<Rightarrow> click (immobilizeButton panel) st)"

definition requestResume :: "controls \<Rightarrow> bike_data option \<Rightarrow> controls" where
  "requestResume st bikeData =
     (case SecurityControls st bikeData of
        None \<Rightarrow> st
      | Some panel \<Rightarrow> click (resumeButton panel) st)"

text \<open>The immobilization value the panel displays.\<close>

definition displayedImmobilized :: "security_panel \<Rightarrow> bool" where
  "displayedImmobilized panel = (statusText panel = ''IMMOBILIZED'')"

section \<open>The dashboard prototype (App.js)\<close>

text \<open>
  The state \<open>data\<close> of \<open>App\<close> has the shape of \<open>mockBikeDataObject\<close>. The two
  handlers read and write the \<open>security\<close> object only and copy the other four
  properties with the spread operator, so the types of those are left open.
\<close>

record security_state =
  status :: string
  engine :: string

record ('ls, 'loc, 'sa, 'pm) app_data =
  liveStatus :: 'ls
  location :: 'loc
  security :: security_state
  serviceAdvisor :: 'sa
  predictiveMaintenance :: 'pm

definition handleLockToggle :: "('ls, 'loc, 'sa, 'pm) app_data \<Rightarrow> ('ls, 'loc, 'sa, 'pm) app_data" where
  "handleLockToggle p =
     p\<lparr>security := (security p)
        \<lparr>status := (if status (security p) = ''Locked'' then ''Unlocked'' else ''Locked'')\<rparr>\<rparr>"

definition handleEngineToggle :: "('ls, 'loc, 'sa, 'pm) app_data \<Rightarrow> ('ls, 'loc, 'sa, 'pm) app_data" where
  "handleEngineToggle p =
     p\<lparr>security := (security p)
        \<lparr>engine := (if engine (security p) = ''On'' then ''Off'' else ''On'')\<rparr>\<rparr>"

text \<open>
  The states of the dashboard: \<open>useState\<close> starts from \<open>mockBikeDataObject\<close>, whose
  \<open>security\<close> is \<open>{status: 'Locked', engine: 'Off'}\<close>, and \<open>setData\<close> is called by the
  two handlers and by nothing else.
\<close>

definition mockSecurity :: security_state where
  "mockSecurity = \<lparr>status = ''Locked'', engine = ''Off''\<rparr>"

inductive dashboard_state :: "('ls, 'loc, 'sa, 'pm) app_data \<Rightarrow> bool" where
  initial: "security p = mockSecurity \<Longrightarrow> dashboard_state p"
| lockToggle: "dashboard_state p \<Longrightarrow> dashboard_state (handleLockToggle p)"
| engineToggle: "dashboard_state p \<Longrightarrow> dashboard_state (handleEngineToggle p)"

section \<open>The control state of the specification\<close>

text \<open>
  Modelled from the spec: the sources hold no optimistic value, so the \<open>ControlState\<close>
  of the specification (\<open>pending\<close>, \<open>optimisticImmobilized\<close>) is written here from its
  words, to be compared with what \<open>SecurityControls\<close> displays.
\<close>

record spec_ControlState =
  pending :: bool
  optimisticImmobilized :: "bool option"

text \<open>
  Modelled from the spec: "On acceptance: set \<open>pending = true\<close>, set
  \<open>optimisticImmobilized\<close> to the target value".
\<close>

definition spec_accept :: "bool \<Rightarrow> spec_ControlState \<Rightarrow> spec_ControlState" where
  "spec_accept target cs = cs\<lparr>pending := True, optimisticImmobilized := Some target\<rparr>"

text \<open>
  Modelled from the spec: "Displayed immobilization value = \<open>optimisticImmobilized\<close> if
  present, else \<open>lastSnapshot.immobilized\<close>".
\<close>

definition spec_displayed :: "spec_ControlState \<Rightarrow> bool \<Rightarrow> bool" where
  "spec_displayed cs lastImmobilized =
     (case optimisticImmobilized cs of Some b \<Rightarrow> b | None \<Rightarrow> lastImmobilized)"

section \<open>The Poller of the specification\<close>

text \<open>
  Modelled from the spec: the component that owns the polling timer is not among the
  sources (the \<open>App\<close> that is works on mock data and fetches nothing). The snapshot is
  the \<open>TelemetrySnapshot\<close> of the specification's data model.
\<close>

record TelemetrySnapshot =
  engineTempC :: rat
  batteryVoltage :: rat
  tirePressureKpa :: rat
  isMoving :: bool
  gpsLat :: "rat option"
  gpsLon :: "rat option"
  immobilized :: bool
  timestampUnixSeconds :: int

text \<open>
  Modelled from the spec: the Poller is \<open>Idle\<close> or \<open>Polling\<close>; besides the timer it
  owns the last accepted snapshot, and at most one fetch is outstanding.
\<close>

datatype poller_phase = Idle | Polling

record poller =
  phase :: poller_phase
  lastAccepted :: "TelemetrySnapshot option"
  fetchOutstanding :: bool

text \<open>
  Modelled from the spec: what reaches the Poller (start, stop, a tick of the timer, the
  result of a fetch: \<open>Inl\<close> a \<open>TransportError\<close> with its cause, \<open>Inr\<close> a snapshot) and
  what it publishes (a snapshot, or the distinct "fetch failed" event).
\<close>

datatype poller_event =
    Start
  | Stop
  | Tick
  | FetchResolved "string + TelemetrySnapshot"

datatype publication =
    SnapshotPublished TelemetrySnapshot
  | FetchFailed string

text \<open>
  Modelled from the spec: "a newly fetched snapshot is accepted and published only if
  its \<open>timestampUnixSeconds\<close> is greater than or equal to the last accepted snapshot's".
\<close>

definition accepts :: "poller \<Rightarrow> TelemetrySnapshot \<Rightarrow> bool" where
  "accepts p s =
     (case lastAccepted p of
        None \<Rightarrow> True
      | Some l \<Rightarrow> timestampUnixSeconds l \<le> timestampUnixSeconds s)"

text \<open>
  Modelled from the spec: \<open>Idle \<rightarrow> Polling\<close> on start, \<open>Polling \<rightarrow> Idle\<close> on stop (the
  timer alone is cancelled), a tick issues a fetch unless one is outstanding (then the
  tick is skipped), and a fetch result is discarded when the Poller has been stopped,
  published as "fetch failed" on a \<open>TransportError\<close>, accepted and published when
  \<open>accepts\<close> holds and silently dropped otherwise.
\<close>

fun poller_step :: "poller \<Rightarrow> poller_event \<Rightarrow> poller \<times> publication list" where
  "poller_step p Start = (p\<lparr>phase := Polling\<rparr>, [])"
| "poller_step p Stop = (p\<lparr>phase := Idle\<rparr>, [])"
| "poller_step p Tick =
     (if phase p = Polling \<and> \<not> fetchOutstanding p then (p\<lparr>fetchOutstanding := True\<rparr>, [])
      else (p, []))"
| "poller_step p (FetchResolved r) =
     (if phase p = Idle then (p\<lparr>fetchOutstanding := False\<rparr>, [])
      else
        (case r of
           Inl cause \<Rightarrow> (p\<lparr>fetchOutstanding := False\<rparr>, [FetchFailed cause])
         | Inr s \<Rightarrow>
             if accepts p s
             then (p\<lparr>fetchOutstanding := False, lastAccepted := Some s\<rparr>, [SnapshotPublished s])
             else (p\<lparr>fetchOutstanding := False\<rparr>, [])))"

text \<open>Modelled from the spec: the Poller run over a sequence of events, with all it publishes.\<close>

fun poller_run :: "poller \<Rightarrow> poller_event list \<Rightarrow> poller \<times> publication list" where
  "poller_run p [] = (p, [])"
| "poller_run p (e # es) =
     (case poller_step p e of
        (p', out) \<Rightarrow> (case poller_run p' es of (p'', outs) \<Rightarrow> (p'', out @ outs)))"

fun publishedTimestamps :: "publication list \<Rightarrow> int list" where
  "publishedTimestamps [] = []"
| "publishedTimestamps (SnapshotPublished s # ps) = timestampUnixSeconds s # publishedTimestamps ps"
| "publishedTimestamps (FetchFailed cause # ps) = publishedTimestamps ps"

definition idlePoller :: poller where
  "idlePoller = \<lparr>phase = Idle, lastAccepted = None, fetchOutstanding = False\<rparr>"

text \<open>
  Modelled from the spec: the snapshots of the scenarios of its section 8, which fix
  \<open>immobilized\<close> and \<open>timestamp\<close>; the other fields are those of the mock snapshot
  without a GPS fix.
\<close>

definition scenarioSnapshot :: "bool \<Rightarrow> int \<Rightarrow> TelemetrySnapshot" where
  "scenarioSnapshot imm ts =
     \<lparr> engineTempC = 827 / 10, batteryVoltage = 1246 / 100, tirePressureKpa = 220,
       isMoving = False, gpsLat = None, gpsLon = None,
       immobilized = imm, timestampUnixSeconds = ts \<rparr>"

section \<open>Properties of BikeMap\<close>

lemma call_toFixed_Val: "\<not> nullish v \<Longrightarrow> \<exists>x. v = Val x \<and> call_toFixed f v = Inr (toFixed f x)"
  by (cases v) simp_all

lemma BikeMap_located:
  assumes "\<not> nullish (gps_lat d)" and "\<not> nullish (gps_lon d)"
  shows "\<exists>popup. BikeMap (Some d) =
           Inr (Some (MapContainer (gps_lat d, gps_lon d) (gps_lat d, gps_lon d) popup))"
proof -
  from assms(1) obtain x where x: "gps_lat d = Val x" by (cases "gps_lat d") simp_all
  from assms(2) obtain y where y: "gps_lon d = Val y" by (cases "gps_lon d") simp_all
  show ?thesis by (simp add: BikeMap_def Let_def x y)
qed

lemma BikeMap_no_fix:
  assumes "nullish (gps_lat d) \<or> nullish (gps_lon d)"
  shows "BikeMap (Some d) = Inr (Some (NoLocation ''No GPS fix yet''))"
  using assms by (auto simp: BikeMap_def Let_def)

text \<open>
  Claim C8. For every telemetry object handed to BikeMap the component renders without
  raising; the marker is present exactly when \<open>gps_lat\<close> and \<open>gps_lon\<close> are both
  neither \<open>null\<close> nor missing, and then it stands at \<open>[gps_lat, gps_lon]\<close>; when either
  coordinate is \<open>null\<close> or missing (also when only one of them is) the panel is the
  message "No GPS fix yet" and carries no marker.
\<close>

theorem BikeMap_marker_iff_both_coordinates:
  "(\<exists>panel. BikeMap (Some d) = Inr (Some panel) \<and>
      (marker panel \<noteq> None \<longleftrightarrow> \<not> nullish (gps_lat d) \<and> \<not> nullish (gps_lon d)) \<and>
      (\<not> nullish (gps_lat d) \<and> \<not> nullish (gps_lon d) \<longrightarrow>
         marker panel = Some (gps_lat d, gps_lon d)) \<and>
      (nullish (gps_lat d) \<or> nullish (gps_lon d) \<longrightarrow>
         panel = NoLocation ''No GPS fix yet'' \<and> marker panel = None))"
proof (cases "nullish (gps_lat d) \<or> nullish (gps_lon d)")
  case True
  then have "BikeMap (Some d) = Inr (Some (NoLocation ''No GPS fix yet''))"
    by (rule BikeMap_no_fix)
  with True show ?thesis by auto
next
  case False
  then have "\<not> nullish (gps_lat d)" and "\<not> nullish (gps_lon d)" by simp_all
  from BikeMap_located [OF this] obtain popup where
    "BikeMap (Some d) =
       Inr (Some (MapContainer (gps_lat d, gps_lon d) (gps_lat d, gps_lon d) popup))" ..
  with False show ?thesis by auto
qed


theorem BikeMap_marker_iff_both_coordinates_witness:
  "\<exists>panel. BikeMap (Some ((mockBikeData 1700000000)\<lparr>gps_lat := Null\<rparr>)) = Inr (Some panel) \<and>
     panel = NoLocation ''No GPS fix yet'' \<and> marker panel = None"
proof -
  have "nullish (gps_lat ((mockBikeData 1700000000)\<lparr>gps_lat := Null\<rparr>))"
    by simp
  with BikeMap_marker_iff_both_coordinates [of "(mockBikeData 1700000000)\<lparr>gps_lat := Null\<rparr>"]
  show ?thesis by blast
qed

section \<open>Properties of BikeStatusDisplay\<close>















section \<open>Properties of the dashboard prototype\<close>

lemma dashboard_state_security:
  "dashboard_state p \<Longrightarrow>
     (status (security p) = ''Locked'' \<or> status (security p) = ''Unlocked'') \<and>
     (engine (security p) = ''On'' \<or> engine (security p) = ''Off'')"
  by (induction rule: dashboard_state.induct)
     (auto simp: mockSecurity_def handleLockToggle_def handleEngineToggle_def)

lemma handleLockToggle_twice:
  "status (security p) = ''Locked'' \<or> status (security p) = ''Unlocked'' \<Longrightarrow>
   handleLockToggle (handleLockToggle p) = p"
  by (auto simp: handleLockToggle_def)

lemma handleEngineToggle_twice:
  "engine (security p) = ''On'' \<or> engine (security p) = ''Off'' \<Longrightarrow>
   handleEngineToggle (handleEngineToggle p) = p"
  by (auto simp: handleEngineToggle_def)

text \<open>
  Claim C10. In every state of the dashboard \<open>handleLockToggle\<close> changes
  \<open>security.status\<close> and nothing else, taking \<open>'Locked'\<close> to \<open>'Unlocked'\<close> and back, and
  \<open>handleEngineToggle\<close> changes \<open>security.engine\<close> and nothing else, taking \<open>'On'\<close> to
  \<open>'Off'\<close> and back; either toggle applied twice gives the state it started from.
\<close>

theorem toggles_frame_and_involution:
  assumes "dashboard_state p"
  shows
    "liveStatus (handleLockToggle p) = liveStatus p \<and>
     location (handleLockToggle p) = location p \<and>
     serviceAdvisor (handleLockToggle p) = serviceAdvisor p \<and>
     predictiveMaintenance (handleLockToggle p) = predictiveMaintenance p \<and>
     engine (security (handleLockToggle p)) = engine (security p) \<and>
     status (security (handleLockToggle p)) =
       (if status (security p) = ''Locked'' then ''Unlocked'' else ''Locked'') \<and>
     status (security (handleLockToggle p)) \<noteq> status (security p) \<and>
     handleLockToggle (handleLockToggle p) = p \<and>
     liveStatus (handleEngineToggle p) = liveStatus p \<and>
     location (handleEngineToggle p) = location p \<and>
     serviceAdvisor (handleEngineToggle p) = serviceAdvisor p \<and>
     predictiveMaintenance (handleEngineToggle p) = predictiveMaintenance p \<and>
     status (security (handleEngineToggle p)) = status (security p) \<and>
     engine (security (handleEngineToggle p)) =
       (if engine (security p) = ''On'' then ''Off'' else ''On'') \<and>
     engine (security (handleEngineToggle p)) \<noteq> engine (security p) \<and>
     handleEngineToggle (handleEngineToggle p) = p"
proof -
  from dashboard_state_security [OF assms]
  have s: "status (security p) = ''Locked'' \<or> status (security p) = ''Unlocked''"
    and e: "engine (security p) = ''On'' \<or> engine (security p) = ''Off''"
    by simp_all
  have lock: "handleLockToggle (handleLockToggle p) = p"
    using s by (rule handleLockToggle_twice)
  have eng: "handleEngineToggle (handleEngineToggle p) = p"
    using e by (rule handleEngineToggle_twice)
  have frame_lock:
    "liveStatus (handleLockToggle p) = liveStatus p \<and>
     location (handleLockToggle p) = location p \<and>
     serviceAdvisor (handleLockToggle p) = serviceAdvisor p \<and>
     predictiveMaintenance (handleLockToggle p) = predictiveMaintenance p \<and>
     engine (security (handleLockToggle p)) = engine (security p) \<and>
     status (security (handleLockToggle p)) =
       (if status (security p) = ''Locked'' then ''Unlocked'' else ''Locked'')"
    by (simp add: handleLockToggle_def)
  have frame_eng:
    "liveStatus (handleEngineToggle p) = liveStatus p \<and>
     location (handleEngineToggle p) = location p \<and>
     serviceAdvisor (handleEngineToggle p) = serviceAdvisor p \<and>
     predictiveMaintenance (handleEngineToggle p) = predictiveMaintenance p \<and>
     status (security (handleEngineToggle p)) = status (security p) \<and>
     engine (security (handleEngineToggle p)) =
       (if engine (security p) = ''On'' then ''Off'' else ''On'')"
    by (simp add: handleEngineToggle_def)
  have ne_lock: "status (security (handleLockToggle p)) \<noteq> status (security p)"
    by (simp add: handleLockToggle_def)
  have ne_eng: "engine (security (handleEngineToggle p)) \<noteq> engine (security p)"
    by (simp add: handleEngineToggle_def)
  from frame_lock ne_lock lock frame_eng ne_eng eng show ?thesis by simp
qed

theorem toggles_frame_and_involution_witness:
  "handleLockToggle (handleLockToggle
     \<lparr>liveStatus = (85::int), location = ''2 mins ago'', security = mockSecurity,
      serviceAdvisor = (78::int), predictiveMaintenance = [45, 92::int]\<rparr>) =
     \<lparr>liveStatus = (85::int), location = ''2 mins ago'', security = mockSecurity,
      serviceAdvisor = (78::int), predictiveMaintenance = [45, 92::int]\<rparr> \<and>
   status (security (handleLockToggle
     \<lparr>liveStatus = (85::int), location = ''2 mins ago'', security = mockSecurity,
      serviceAdvisor = (78::int), predictiveMaintenance = [45, 92::int]\<rparr>)) = ''Unlocked'' \<and>
   engine (security (handleEngineToggle
     \<lparr>liveStatus = (85::int), location = ''2 mins ago'', security = mockSecurity,
      serviceAdvisor = (78::int), predictiveMaintenance = [45, 92::int]\<rparr>)) = ''On''"
proof -
  have "dashboard_state
     \<lparr>liveStatus = (85::int), location = ''2 mins ago'', security = mockSecurity,
      serviceAdvisor = (78::int), predictiveMaintenance = [45, 92::int]\<rparr>"
    by (rule dashboard_state.initial) simp
  from toggles_frame_and_involution [OF this] show ?thesis
    by (simp add: mockSecurity_def)
qed

section \<open>Properties of SecurityControls\<close>

lemma SecurityControls_Some:
  "SecurityControls st (Some d) =
     Some \<lparr> statusClass = (if truthy_bool (immobilization_status d) then ''immobilized'' else ''active''),
            statusText = (if truthy_bool (immobilization_status d) then ''IMMOBILIZED'' else ''ACTIVE''),
            immobilizeButton = \<lparr> disabled = (busy st \<or> truthy_bool (immobilization_status d)), onClick = ''immobilize'' \<rparr>,
            resumeButton = \<lparr> disabled = (busy st \<or> \<not> truthy_bool (immobilization_status d)), onClick = ''resume'' \<rparr>,
            working = busy st \<rparr>"
  by (simp add: SecurityControls_def Let_def)

lemma requestImmobilize_accepted:
  "\<not> busy st \<Longrightarrow> \<not> truthy_bool (immobilization_status d) \<Longrightarrow>
   requestImmobilize st (Some d) = st\<lparr>busy := True, sent := sent st @ [''immobilize'']\<rparr>"
  by (simp add: requestImmobilize_def SecurityControls_Some click_def handleClick_dispatch_def)

lemma requestResume_accepted:
  "\<not> busy st \<Longrightarrow> truthy_bool (immobilization_status d) \<Longrightarrow>
   requestResume st (Some d) = st\<lparr>busy := True, sent := sent st @ [''resume'']\<rparr>"
  by (simp add: requestResume_def SecurityControls_Some click_def handleClick_dispatch_def)

text \<open>
  Claim C2. A request to immobilize made while a command is in flight (\<open>busy\<close>) or
  while the telemetry object already reports the engine immobilized, and a request to
  resume made while a command is in flight or while the engine is not immobilized, leave
  the state of the controls as it was; in particular nothing is added to the commands
  sent.
\<close>

theorem rejected_request_is_noop:
  "(busy st \<or> truthy_bool (immobilization_status d) \<longrightarrow>
      requestImmobilize st (Some d) = st \<and> sent (requestImmobilize st (Some d)) = sent st) \<and>
   (busy st \<or> \<not> truthy_bool (immobilization_status d) \<longrightarrow>
      requestResume st (Some d) = st \<and> sent (requestResume st (Some d)) = sent st)"
  by (simp add: requestImmobilize_def requestResume_def SecurityControls_Some click_def)

theorem rejected_request_is_noop_witness:
  "requestImmobilize \<lparr>busy = True, sent = [''resume'']\<rparr> (Some (mockBikeData 1700000000)) =
     \<lparr>busy = True, sent = [''resume'']\<rparr> \<and>
   requestImmobilize \<lparr>busy = False, sent = []\<rparr>
       (Some ((mockBikeData 1700000000)\<lparr>immobilization_status := Val True\<rparr>)) =
     \<lparr>busy = False, sent = []\<rparr> \<and>
   requestResume \<lparr>busy = False, sent = []\<rparr> (Some (mockBikeData 1700000000)) =
     \<lparr>busy = False, sent = []\<rparr>"
  using rejected_request_is_noop [of "\<lparr>busy = True, sent = [''resume'']\<rparr>" "mockBikeData 1700000000"]
    rejected_request_is_noop [of "\<lparr>busy = False, sent = []\<rparr>"
      "(mockBikeData 1700000000)\<lparr>immobilization_status := Val True\<rparr>"]
    rejected_request_is_noop [of "\<lparr>busy = False, sent = []\<rparr>" "mockBikeData 1700000000"]
  by (simp add: mockBikeData_def)

section \<open>Properties of sendCommand\<close>











section \<open>A settled command\<close>

text \<open>
  Claim C5 as stated does not hold. After a command that resolved with an error and a
  message the controls are in the state they are in after a command that succeeded, and
  the panel rendered from it holds the status line, the two buttons and the working
  flag only: the message is nowhere in what the component shows.
\<close>

theorem failure_message_not_surfaced:
  "fst (handleClick_settle
          (Inr (JObj [(''status'', JStr ''error''), (''message'', JStr ''Engine is running'')]))
          \<lparr>busy = True, sent = [''immobilize'']\<rparr>) =
   fst (handleClick_settle (Inr (JObj [(''status'', JStr ''ok'')]))
          \<lparr>busy = True, sent = [''immobilize'']\<rparr>) \<and>
   snd (handleClick_settle
          (Inr (JObj [(''status'', JStr ''error''), (''message'', JStr ''Engine is running'')]))
          \<lparr>busy = True, sent = [''immobilize'']\<rparr>) = Inr () \<and>
   SecurityControls
     (fst (handleClick_settle
          (Inr (JObj [(''status'', JStr ''error''), (''message'', JStr ''Engine is running'')]))
          \<lparr>busy = True, sent = [''immobilize'']\<rparr>))
     (Some (mockBikeData 1700000000)) =
   Some \<lparr> statusClass = ''active'', statusText = ''ACTIVE'',
          immobilizeButton = \<lparr> disabled = False, onClick = ''immobilize'' \<rparr>,
          resumeButton = \<lparr> disabled = True, onClick = ''resume'' \<rparr>,
          working = False \<rparr>"
  by (simp add: handleClick_settle_def SecurityControls_Some mockBikeData_def)

text \<open>
  Claim C5, amended. Whenever a dispatched command settles, with whatever outcome,
  \<open>handleClick\<close> clears \<open>busy\<close> and does nothing else: no command is sent again, the
  state and the rendered panel do not depend on the outcome (its value, and with it any
  failure message, is dropped), and the displayed immobilization value is that of the
  current telemetry object.
\<close>

theorem handleClick_settle_clears_busy_only:
  "fst (handleClick_settle outcome st) = st\<lparr>busy := False\<rparr> \<and>
   busy (fst (handleClick_settle outcome st)) = False \<and>
   sent (fst (handleClick_settle outcome st)) = sent st \<and>
   fst (handleClick_settle outcome st) = fst (handleClick_settle outcome' st) \<and>
   SecurityControls (fst (handleClick_settle outcome st)) bikeData =
     SecurityControls (fst (handleClick_settle outcome' st)) bikeData \<and>
   (\<exists>panel. SecurityControls (fst (handleClick_settle outcome st)) (Some d) = Some panel \<and>
      displayedImmobilized panel = truthy_bool (immobilization_status d) \<and>
      working panel = False)"
  by (simp add: handleClick_settle_def SecurityControls_Some displayedImmobilized_def)

section \<open>The displayed immobilization value\<close>

text \<open>
  Claim C6 as stated does not hold. With the engine reported active, an accepted request
  to immobilize is sent and leaves the displayed value at "active", whereas the control
  state of the specification then holds the optimistic value \<open>true\<close> and displays it.
\<close>

theorem displayed_ignores_accepted_request:
  "requestImmobilize \<lparr>busy = False, sent = []\<rparr> (Some (mockBikeData 1700000000)) =
     \<lparr>busy = True, sent = [''immobilize'']\<rparr> \<and>
   (\<exists>panel. SecurityControls \<lparr>busy = True, sent = [''immobilize'']\<rparr> (Some (mockBikeData 1700000000)) = Some panel \<and>
      displayedImmobilized panel = False) \<and>
   optimisticImmobilized (spec_accept True \<lparr>pending = False, optimisticImmobilized = None\<rparr>) = Some True \<and>
   spec_displayed (spec_accept True \<lparr>pending = False, optimisticImmobilized = None\<rparr>) False = True"
  by (simp add: requestImmobilize_accepted SecurityControls_Some displayedImmobilized_def
      mockBikeData_def spec_accept_def spec_displayed_def)

text \<open>
  Claim C6, amended. The displayed immobilization value always is the truthiness of
  \<open>immobilization_status\<close> in the current telemetry object, also right after a request;
  the component holds no optimistic value.
\<close>

theorem displayed_is_snapshot_value:
  "(\<exists>panel. SecurityControls st (Some d) = Some panel \<and>
      displayedImmobilized panel = truthy_bool (immobilization_status d)) \<and>
   (\<exists>panel. SecurityControls (requestImmobilize st (Some d)) (Some d) = Some panel \<and>
      displayedImmobilized panel = truthy_bool (immobilization_status d)) \<and>
   (\<exists>panel. SecurityControls (requestResume st (Some d)) (Some d) = Some panel \<and>
      displayedImmobilized panel = truthy_bool (immobilization_status d)) \<and>
   SecurityControls st None = None"
  by (simp add: SecurityControls_Some displayedImmobilized_def) (simp add: SecurityControls_def)

section \<open>Properties of the Poller\<close>

lemma accepts_iff:
  "accepts p s \<longleftrightarrow> (\<forall>l. lastAccepted p = Some l \<longrightarrow> timestampUnixSeconds l \<le> timestampUnixSeconds s)"
  by (simp add: accepts_def split: option.splits)

lemma poller_step_publishes:
  assumes "poller_step p e = (p', out)"
  shows "(publishedTimestamps out = [] \<and> lastAccepted p' = lastAccepted p) \<or>
         (\<exists>s. publishedTimestamps out = [timestampUnixSeconds s] \<and> accepts p s \<and> lastAccepted p' = Some s)"
proof (cases e)
  case (FetchResolved r)
  then show ?thesis using assms
    by (cases r) (auto split: if_splits)
qed (use assms in \<open>auto split: if_splits\<close>)

lemma poller_run_bounded_sorted:
  "sorted (publishedTimestamps (snd (poller_run p evs))) \<and>
   (\<forall>l. lastAccepted p = Some l \<longrightarrow>
      (\<forall>t \<in> set (publishedTimestamps (snd (poller_run p evs))). timestampUnixSeconds l \<le> t))"
proof (induction evs arbitrary: p)
  case Nil
  show ?case by simp
next
  case (Cons e es)
  obtain p' out where st: "poller_step p e = (p', out)" by (cases "poller_step p e")
  obtain p'' outs where rn: "poller_run p' es = (p'', outs)" by (cases "poller_run p' es")
  have run: "snd (poller_run p (e # es)) = out @ outs" by (simp add: st rn)
  have app: "publishedTimestamps (out @ outs) = publishedTimestamps out @ publishedTimestamps outs"
    for out outs
    by (induction out rule: publishedTimestamps.induct) simp_all
  from Cons.IH [of p'] rn
  have srt: "sorted (publishedTimestamps outs)"
    and bnd: "\<And>l t. lastAccepted p' = Some l \<Longrightarrow> t \<in> set (publishedTimestamps outs) \<Longrightarrow>
                 timestampUnixSeconds l \<le> t"
    by auto
  from poller_step_publishes [OF st] show ?case
  proof
    assume "publishedTimestamps out = [] \<and> lastAccepted p' = lastAccepted p"
    with srt bnd show ?thesis unfolding run app by auto
  next
    assume "\<exists>s. publishedTimestamps out = [timestampUnixSeconds s] \<and> accepts p s \<and> lastAccepted p' = Some s"
    then obtain s where s: "publishedTimestamps out = [timestampUnixSeconds s]" "accepts p s"
      "lastAccepted p' = Some s" by blast
    from s(3) bnd have b: "\<And>t. t \<in> set (publishedTimestamps outs) \<Longrightarrow> timestampUnixSeconds s \<le> t"
      by blast
    from s(2) have a: "\<And>l. lastAccepted p = Some l \<Longrightarrow> timestampUnixSeconds l \<le> timestampUnixSeconds s"
      by (simp add: accepts_iff)
    show ?thesis unfolding run app s(1) using srt b a by (auto intro: order_trans)
  qed
qed

text \<open>
  Claim C1. Whatever events reach the Poller, with the fetch results in any order, the
  timestamps of the snapshots it publishes are non-decreasing. While polling, a fetched
  snapshot is accepted and published when its timestamp is at least that of the last
  accepted snapshot (or there is none yet); otherwise nothing is published and the last
  accepted snapshot stays.
\<close>

theorem poller_publishes_nondecreasing:
  "sorted (publishedTimestamps (snd (poller_run p evs))) \<and>
   (phase p = Polling \<and> accepts p s \<longrightarrow>
      poller_step p (FetchResolved (Inr s)) =
        (p\<lparr>fetchOutstanding := False, lastAccepted := Some s\<rparr>, [SnapshotPublished s])) \<and>
   (\<not> accepts p s \<longrightarrow>
      snd (poller_step p (FetchResolved (Inr s))) = [] \<and>
      lastAccepted (fst (poller_step p (FetchResolved (Inr s)))) = lastAccepted p) \<and>
   (accepts p s \<longleftrightarrow>
      (\<forall>l. lastAccepted p = Some l \<longrightarrow> timestampUnixSeconds l \<le> timestampUnixSeconds s))"
proof (intro conjI)
  show "sorted (publishedTimestamps (snd (poller_run p evs)))"
    using poller_run_bounded_sorted [of p evs] by simp
  show "phase p = Polling \<and> accepts p s \<longrightarrow>
      poller_step p (FetchResolved (Inr s)) =
        (p\<lparr>fetchOutstanding := False, lastAccepted := Some s\<rparr>, [SnapshotPublished s])"
    by simp
  show "\<not> accepts p s \<longrightarrow>
      snd (poller_step p (FetchResolved (Inr s))) = [] \<and>
      lastAccepted (fst (poller_step p (FetchResolved (Inr s)))) = lastAccepted p"
    by simp
  show "accepts p s \<longleftrightarrow>
      (\<forall>l. lastAccepted p = Some l \<longrightarrow> timestampUnixSeconds l \<le> timestampUnixSeconds s)"
    by (rule accepts_iff)
qed


theorem poller_publishes_nondecreasing_witness:
  "poller_run idlePoller
     [Start, Tick, FetchResolved (Inr (scenarioSnapshot False 100)),
      Tick, FetchResolved (Inr (scenarioSnapshot False 98)),
      Tick, FetchResolved (Inr (scenarioSnapshot True 105))] =
     (\<lparr>phase = Polling, lastAccepted = Some (scenarioSnapshot True 105), fetchOutstanding = False\<rparr>,
      [SnapshotPublished (scenarioSnapshot False 100), SnapshotPublished (scenarioSnapshot True 105)]) \<and>
   sorted (publishedTimestamps (snd (poller_run idlePoller
     [Start, Tick, FetchResolved (Inr (scenarioSnapshot False 100)),
      Tick, FetchResolved (Inr (scenarioSnapshot False 98)),
      Tick, FetchResolved (Inr (scenarioSnapshot True 105))])))"
proof -
  have "poller_run idlePoller
     [Start, Tick, FetchResolved (Inr (scenarioSnapshot False 100)),
      Tick, FetchResolved (Inr (scenarioSnapshot False 98)),
      Tick, FetchResolved (Inr (scenarioSnapshot True 105))] =
     (\<lparr>phase = Polling, lastAccepted = Some (scenarioSnapshot True 105), fetchOutstanding = False\<rparr>,
      [SnapshotPublished (scenarioSnapshot False 100), SnapshotPublished (scenarioSnapshot True 105)])"
    by (simp add: idlePoller_def accepts_def scenarioSnapshot_def)
  moreover note poller_publishes_nondecreasing [of idlePoller
     "[Start, Tick, FetchResolved (Inr (scenarioSnapshot False 100)),
      Tick, FetchResolved (Inr (scenarioSnapshot False 98)),
      Tick, FetchResolved (Inr (scenarioSnapshot True 105))]", THEN conjunct1]
  ultimately show ?thesis by (rule conjI)
qed

lemma poller_step_stays_polling:
  "phase p = Polling \<Longrightarrow> e \<noteq> Stop \<Longrightarrow> phase (fst (poller_step p e)) = Polling"
proof (cases e)
  case (FetchResolved r)
  assume "phase p = Polling"
  with FetchResolved show ?thesis by (cases r) simp_all
qed simp_all

lemma fst_poller_run_Cons:
  "fst (poller_run p (e # es)) = fst (poller_run (fst (poller_step p e)) es)"
  by (cases "poller_step p e", cases "poller_run (fst (poller_step p e)) es") simp

lemma poller_run_stays_polling:
  "phase p = Polling \<Longrightarrow> Stop \<notin> set evs \<Longrightarrow> phase (fst (poller_run p evs)) = Polling"
proof (induction evs arbitrary: p)
  case Nil
  then show ?case by simp
next
  case (Cons e es)
  from Cons.prems have "phase (fst (poller_step p e)) = Polling"
    by (intro poller_step_stays_polling) auto
  moreover from Cons.prems have "Stop \<notin> set es" by simp
  ultimately have "phase (fst (poller_run (fst (poller_step p e)) es)) = Polling"
    by (rule Cons.IH)
  then show ?case by (simp only: fst_poller_run_Cons)
qed

text \<open>
  Claim C7. The Poller has the two phases \<open>Idle\<close> and \<open>Polling\<close> and no other. Start
  leads to \<open>Polling\<close>; from \<open>Polling\<close> every event but stop, and so every sequence of
  ticks and fetch results, failed or not, leaves it \<open>Polling\<close>; only stop leads back to
  \<open>Idle\<close>. A failed fetch is published as such and the next tick fetches again.
\<close>

theorem poller_has_no_failure_state:
  "phase (fst (poller_step p Start)) = Polling \<and>
   phase (fst (poller_step p Stop)) = Idle \<and>
   (phase p = Polling \<and> e \<noteq> Stop \<longrightarrow> phase (fst (poller_step p e)) = Polling) \<and>
   (phase p = Polling \<and> Stop \<notin> set evs \<longrightarrow> phase (fst (poller_run p evs)) = Polling) \<and>
   (phase p = Polling \<and> phase (fst (poller_step p e)) = Idle \<longrightarrow> e = Stop) \<and>
   (phase p = Polling \<longrightarrow>
      poller_step p (FetchResolved (Inl cause)) = (p\<lparr>fetchOutstanding := False\<rparr>, [FetchFailed cause]) \<and>
      poller_step (p\<lparr>fetchOutstanding := False\<rparr>) Tick = (p\<lparr>fetchOutstanding := True\<rparr>, [])) \<and>
   (\<forall>ph::poller_phase. ph = Idle \<or> ph = Polling)"
proof (intro conjI impI allI)
  fix ph :: poller_phase
  show "ph = Idle \<or> ph = Polling" by (cases ph) simp_all
next
  assume "phase p = Polling \<and> phase (fst (poller_step p e)) = Idle"
  then show "e = Stop" using poller_step_stays_polling [of p e] by auto
qed (simp_all add: poller_step_stays_polling poller_run_stays_polling)

theorem poller_has_no_failure_state_witness:
  "poller_run idlePoller
     [Start, Tick, FetchResolved (Inl ''Network Error''), Tick, FetchResolved (Inl ''timeout''),
      Tick, FetchResolved (Inr (scenarioSnapshot False 100))] =
     (\<lparr>phase = Polling, lastAccepted = Some (scenarioSnapshot False 100), fetchOutstanding = False\<rparr>,
      [FetchFailed ''Network Error'', FetchFailed ''timeout'',
       SnapshotPublished (scenarioSnapshot False 100)]) \<and>
   phase (fst (poller_run (fst (poller_step idlePoller Start))
     [Tick, FetchResolved (Inl ''Network Error''), Tick, FetchResolved (Inl ''timeout''),
      Tick, FetchResolved (Inr (scenarioSnapshot False 100))])) = Polling"
proof -
  have a: "poller_run idlePoller
     [Start, Tick, FetchResolved (Inl ''Network Error''), Tick, FetchResolved (Inl ''timeout''),
      Tick, FetchResolved (Inr (scenarioSnapshot False 100))] =
     (\<lparr>phase = Polling, lastAccepted = Some (scenarioSnapshot False 100), fetchOutstanding = False\<rparr>,
      [FetchFailed ''Network Error'', FetchFailed ''timeout'',
       SnapshotPublished (scenarioSnapshot False 100)])"
    by (simp add: idlePoller_def accepts_def)
  have h: "phase (fst (poller_step idlePoller Start)) = Polling \<and>
     Stop \<notin> set [Tick, FetchResolved (Inl ''Network Error''), Tick, FetchResolved (Inl ''timeout''),
      Tick, FetchResolved (Inr (scenarioSnapshot False 100))]"
    by simp
  from poller_has_no_failure_state [of "fst (poller_step idlePoller Start)" _
    "[Tick, FetchResolved (Inl ''Network Error''), Tick, FetchResolved (Inl ''timeout''),
      Tick, FetchResolved (Inr (scenarioSnapshot False 100))]"] h
  have b: "phase (fst (poller_run (fst (poller_step idlePoller Start))
     [Tick, FetchResolved (Inl ''Network Error''), Tick, FetchResolved (Inl ''timeout''),
      Tick, FetchResolved (Inr (scenarioSnapshot False 100))])) = Polling"
    by blast
  from a b show ?thesis by (rule conjI)
qed

end
